theory Spec2Isabelle
  imports Main
begin

section \<open>Link hooks: the data model\<close>

text \<open>
  The development embeds \<^verbatim>\<open>chainer/link_hook.py\<close>: the class \<^verbatim>\<open>LinkHook\<close>, its
  context-manager methods \<^verbatim>\<open>__enter__\<close> and \<^verbatim>\<open>__exit__\<close>, and its four overridable
  callbacks.

  Exceptions are values. A Python call that raises keeps every mutation it has made
  before the raise, so a fallible operation returns a pair: the outcome (\<open>Inl\<close> the
  exception, \<open>Inr\<close> the returned value) and the state it leaves behind.
\<close>

datatype error =
    KeyError string    \<comment> \<open>\<^verbatim>\<open>KeyError(msg)\<close>, raised by the source and by a failed dict access\<close>
  | Raised string      \<comment> \<open>any exception raised by user code (an overridden callback, a region)\<close>

text \<open>
  A hook object. \<open>ident\<close> is the identity of the Python object (two hooks with the same
  name are still two objects), \<open>name\<close> is its \<^verbatim>\<open>name\<close> attribute, whose class-level default
  is \<^verbatim>\<open>'LinkHook'\<close>. No method of the class assigns \<^verbatim>\<open>name\<close>; it is a constant of the
  object here.
\<close>

record hook =
  ident :: nat
  name :: string

definition default_name :: string where
  "default_name = ''LinkHook''"

subsection \<open>The registry: an insertion-ordered dictionary\<close>

text \<open>
  A Python dictionary that remembers the order in which keys were first stored, as an
  association list. \<open>dict_getitem\<close> answers \<open>None\<close> where Python raises \<^verbatim>\<open>KeyError\<close>;
  \<open>dict_delitem\<close> is only called behind a membership test.
\<close>

type_synonym 'v dict = "(string \<times> 'v) list"

definition dict_getitem :: "'v dict \<Rightarrow> string \<Rightarrow> 'v option" where
  "dict_getitem d k = map_of d k"

definition dict_contains :: "'v dict \<Rightarrow> string \<Rightarrow> bool" where
  "dict_contains d k = (dict_getitem d k \<noteq> None)"

fun dict_setitem :: "'v dict \<Rightarrow> string \<Rightarrow> 'v \<Rightarrow> 'v dict" where
  "dict_setitem [] k v = [(k, v)]"
| "dict_setitem ((k', v') # d) k v =
     (if k' = k then (k, v) # d else (k', v') # dict_setitem d k v)"

definition dict_delitem :: "'v dict \<Rightarrow> string \<Rightarrow> 'v dict" where
  "dict_delitem d k = filter (\<lambda>kv. fst kv \<noteq> k) d"

definition dict_values :: "'v dict \<Rightarrow> 'v list" where
  "dict_values d = map snd d"

subsection \<open>State\<close>

text \<open>
  Modelled from the spec: \<^verbatim>\<open>chainer._get_link_hooks()\<close> is not part of the embedded file.
  The spec describes what it returns as the global registry of the current execution
  context, a mapping from hook name to hook whose snapshot is in registration order. It is
  the field \<open>link_hooks\<close> of the environment; one environment is one execution context.

  \<open>heap\<close> is everything else a callback can read or write (for example the statistics a
  timing hook accumulates).
\<close>

record 'u env =
  link_hooks :: "hook dict"
  heap :: 'u

text \<open>
  The calls the embedded code makes to hook callbacks, in the order it makes them. The
  log is kept beside the environment, out of the callbacks' reach: a callback transforms
  the environment only.
\<close>

datatype event =
    Added hook "nat option"
  | Deleted hook "nat option"
  | ForwardPreprocess hook
  | ForwardPostprocess hook

record 'u state =
  env :: "'u env"
  calls :: "event list"

subsection \<open>Callback data and the overridable methods\<close>

text \<open>
  The callback data documented for \<^verbatim>\<open>forward_preprocess\<close> and \<^verbatim>\<open>forward_postprocess\<close>:
  the link (by identity), the name of the forward method, the positional and keyword
  arguments and, after the call only, the value returned.
\<close>

record 'a callback_args =
  link :: nat
  forward_method :: string
  args :: "'a list"
  kwargs :: "(string \<times> 'a) list"
  out :: "'a option"

text \<open>
  Each callback takes \<open>self\<close>, its argument and the environment; it may raise and it
  may change the environment. Its normal return value is Python's \<^verbatim>\<open>None\<close>, the unit value.
  The link argument of \<open>added\<close> and \<open>deleted\<close> is \<open>None\<close> for a global registration.
\<close>

type_synonym ('x, 'u) hook_method = "hook \<Rightarrow> 'x \<Rightarrow> 'u env \<Rightarrow> (error + unit) \<times> 'u env"

record ('a, 'u) hook_class =
  added :: "(nat option, 'u) hook_method"
  deleted :: "(nat option, 'u) hook_method"
  forward_preprocess :: "('a callback_args, 'u) hook_method"
  forward_postprocess :: "('a callback_args, 'u) hook_method"

text \<open>The four methods of the base class: each body is \<^verbatim>\<open>pass\<close>.\<close>

definition LinkHook_added :: "(nat option, 'u) hook_method" where
  "LinkHook_added self lnk e = (Inr (), e)"

definition LinkHook_deleted :: "(nat option, 'u) hook_method" where
  "LinkHook_deleted self lnk e = (Inr (), e)"

definition LinkHook_forward_preprocess :: "('a callback_args, 'u) hook_method" where
  "LinkHook_forward_preprocess self cb_args e = (Inr (), e)"

definition LinkHook_forward_postprocess :: "('a callback_args, 'u) hook_method" where
  "LinkHook_forward_postprocess self cb_args e = (Inr (), e)"

definition LinkHook :: "('a, 'u) hook_class" where
  "LinkHook =
     \<lparr>added = LinkHook_added, deleted = LinkHook_deleted,
      forward_preprocess = LinkHook_forward_preprocess,
      forward_postprocess = LinkHook_forward_postprocess\<rparr>"

text \<open>
  Dynamic dispatch: a class table gives the class of every hook object, a subclass
  being a \<open>hook_class\<close> with some of the four fields replaced.
\<close>

type_synonym ('a, 'u) class_table = "hook \<Rightarrow> ('a, 'u) hook_class"

section \<open>The context manager\<close>

text \<open>
  \<^verbatim>\<open>__enter__\<close>: the membership test, the raise, the store, the call of \<^verbatim>\<open>self.added(None)\<close>
  and the return of \<^verbatim>\<open>self\<close>, in the order of the source. An exception of \<open>added\<close>
  propagates from the state the callback left.
\<close>

definition LinkHook_enter ::
  "('a, 'u) class_table \<Rightarrow> hook \<Rightarrow> 'u state \<Rightarrow> (error + hook) \<times> 'u state" where
  "LinkHook_enter ct self s =
     (if dict_contains (link_hooks (env s)) (name self)
      then (Inl (KeyError (''hook '' @ name self @ '' already exists'')), s)
      else
        (let stored = (env s)\<lparr>link_hooks :=
                         dict_setitem (link_hooks (env s)) (name self) self\<rparr>
         in case added (ct self) self None stored of
              (Inl e, e1) \<Rightarrow> (Inl e, \<lparr>env = e1, calls = calls s @ [Added self None]\<rparr>)
            | (Inr _, e1) \<Rightarrow> (Inr self, \<lparr>env = e1, calls = calls s @ [Added self None]\<rparr>)))"

text \<open>
  \<^verbatim>\<open>__exit__\<close>: \<^verbatim>\<open>link_hooks[self.name]\<close> raises \<^verbatim>\<open>KeyError(self.name)\<close> when the key is
  missing; otherwise \<open>deleted(None)\<close> is called on the hook that is stored there, and
  then \<^verbatim>\<open>del link_hooks[self.name]\<close> runs on the registry the callback left, raising
  \<^verbatim>\<open>KeyError(self.name)\<close> in its turn when the key is gone.
\<close>

definition LinkHook_exit ::
  "('a, 'u) class_table \<Rightarrow> hook \<Rightarrow> 'u state \<Rightarrow> (error + unit) \<times> 'u state" where
  "LinkHook_exit ct self s =
     (case dict_getitem (link_hooks (env s)) (name self) of
        None \<Rightarrow> (Inl (KeyError (name self)), s)
      | Some g \<Rightarrow>
          (case deleted (ct g) g None (env s) of
             (Inl e, e1) \<Rightarrow> (Inl e, \<lparr>env = e1, calls = calls s @ [Deleted g None]\<rparr>)
           | (Inr _, e1) \<Rightarrow>
               (if dict_contains (link_hooks e1) (name self)
                then (Inr (),
                      \<lparr>env = e1\<lparr>link_hooks := dict_delitem (link_hooks e1) (name self)\<rparr>,
                       calls = calls s @ [Deleted g None]\<rparr>)
                else (Inl (KeyError (name self)),
                      \<lparr>env = e1, calls = calls s @ [Deleted g None]\<rparr>))))"


section \<open>The dispatcher\<close>

text \<open>
  Modelled from the spec: the link (node) and its call path are not part of the embedded
  file. The spec gives a node a node-local registry of its own, a mapping from hook name
  to hook that is independent of the global registry.
\<close>

record link_obj =
  link_id :: nat
  local_link_hooks :: "hook dict"

text \<open>
  Modelled from the spec: one phase of the hook protocol (missing: the loops over the
  hooks in the link's call path). The callback is called on every hook of the snapshot, in
  snapshot order; an exception of a callback propagates at once and the remaining
  callbacks of the phase are not called.
\<close>

fun run_hooks ::
  "(hook \<Rightarrow> 'u env \<Rightarrow> (error + unit) \<times> 'u env) \<Rightarrow> (hook \<Rightarrow> event) \<Rightarrow> hook list \<Rightarrow>
     'u state \<Rightarrow> (error + unit) \<times> 'u state" where
  "run_hooks cb ev [] s = (Inr (), s)"
| "run_hooks cb ev (h # hs) s =
     (case cb h (env s) of
        (Inl e, e1) \<Rightarrow> (Inl e, \<lparr>env = e1, calls = calls s @ [ev h]\<rparr>)
      | (Inr _, e1) \<Rightarrow> run_hooks cb ev hs \<lparr>env = e1, calls = calls s @ [ev h]\<rparr>)"

text \<open>
  Modelled from the spec: the dispatcher entry point (missing: the link's call path), by
  the seven steps the spec lists. The snapshots of the global and of the node-local
  registry are taken first, global before local; the record is built without \<open>out\<close>; the
  pre-invoke callbacks run; the wrapped computation runs with the original arguments; the
  record gets \<open>out\<close>; the post-invoke callbacks run on the same snapshots in the same
  order; the result is returned. A failing callback or computation ends the invocation.
\<close>

definition invoke_with_hooks ::
  "('a, 'u) class_table \<Rightarrow> link_obj \<Rightarrow> string \<Rightarrow> 'a list \<Rightarrow> (string \<times> 'a) list \<Rightarrow>
     ('a list \<Rightarrow> (string \<times> 'a) list \<Rightarrow> 'u state \<Rightarrow> (error + 'a) \<times> 'u state) \<Rightarrow>
     'u state \<Rightarrow> (error + 'a) \<times> 'u state" where
  "invoke_with_hooks ct N M A K computation s =
     (let hooks = dict_values (link_hooks (env s)) @ dict_values (local_link_hooks N);
          cb_args = \<lparr>link = link_id N, forward_method = M, args = A, kwargs = K,
                     out = None\<rparr>
      in case run_hooks (\<lambda>h. forward_preprocess (ct h) h cb_args) ForwardPreprocess hooks s of
           (Inl e, s1) \<Rightarrow> (Inl e, s1)
         | (Inr _, s1) \<Rightarrow>
             (case computation A K s1 of
                (Inl e, s2) \<Rightarrow> (Inl e, s2)
              | (Inr R, s2) \<Rightarrow>
                  (case run_hooks (\<lambda>h. forward_postprocess (ct h) h (cb_args\<lparr>out := Some R\<rparr>))
                          ForwardPostprocess hooks s2 of
                     (Inl e, s3) \<Rightarrow> (Inl e, s3)
                   | (Inr _, s3) \<Rightarrow> (Inr R, s3))))"

section \<open>Example objects\<close>

text \<open>
  Subclasses and objects on which the theorems below are exercised. \<open>FailingHook\<close>
  overrides \<open>added\<close> with a body that raises; \<open>ProbeHook\<close> overrides \<open>deleted\<close> with a body
  that writes down whether its own name is in the global registry at the moment it runs;
  \<open>StubbornHook\<close> overrides \<open>deleted\<close> with a body that raises.
\<close>

definition FailingHook :: "('a, 'u) hook_class" where
  "FailingHook = LinkHook\<lparr>added := \<lambda>self lnk e. (Inl (Raised ''added failed''), e)\<rparr>"

definition ProbeHook :: "('a, bool) hook_class" where
  "ProbeHook =
     LinkHook\<lparr>deleted := \<lambda>self lnk e.
       (Inr (), e\<lparr>heap := dict_contains (link_hooks e) (name self)\<rparr>)\<rparr>"

definition StubbornHook :: "('a, 'u) hook_class" where
  "StubbornHook = LinkHook\<lparr>deleted := \<lambda>self lnk e. (Inl (Raised ''deleted failed''), e)\<rparr>"

definition hookA :: hook where
  "hookA = \<lparr>ident = 1, name = ''A''\<rparr>"

definition hookB :: hook where
  "hookB = \<lparr>ident = 2, name = ''B''\<rparr>"

definition hookC :: hook where
  "hookC = \<lparr>ident = 3, name = ''C''\<rparr>"

definition hookD :: hook where
  "hookD = \<lparr>ident = 4, name = ''D''\<rparr>"

text \<open>A second object with the name of \<open>hookA\<close>.\<close>

definition hookA' :: hook where
  "hookA' = \<lparr>ident = 5, name = ''A''\<rparr>"

text \<open>A link with the local hooks \<open>hookC\<close> and \<open>hookD\<close>, stored in that order.\<close>

definition linkN :: link_obj where
  "linkN =
     \<lparr>link_id = 7,
      local_link_hooks =
        dict_setitem (dict_setitem [] (name hookC) hookC) (name hookD) hookD\<rparr>"


definition RecordingHook :: "('a, (string \<times> string \<times> 'a option) list) hook_class" where
  "RecordingHook =
     LinkHook\<lparr>forward_preprocess := \<lambda>self cb_args e.
                (Inr (), e\<lparr>heap := heap e @ [(''pre'', name self, out cb_args)]\<rparr>),
              forward_postprocess := \<lambda>self cb_args e.
                (Inr (), e\<lparr>heap := heap e @ [(''post'', name self, out cb_args)]\<rparr>)\<rparr>"

text \<open>Class tables in which every hook is of one class.\<close>

definition failing_hooks :: "(nat, unit) class_table" where
  "failing_hooks h = FailingHook"



definition recording_hooks :: "(nat, (string \<times> string \<times> nat option) list) class_table" where
  "recording_hooks h = RecordingHook"

text \<open>
  A region that completes, a region that raises, a wrapped computation that returns
  and one that raises.
\<close>

definition failing_computation ::
  "nat list \<Rightarrow> (string \<times> nat) list \<Rightarrow> 'u state \<Rightarrow> (error + nat) \<times> 'u state" where
  "failing_computation A K s = (Inl (Raised ''forward failed''), s)"




definition count_args ::
  "nat list \<Rightarrow> (string \<times> nat) list \<Rightarrow> 'u state \<Rightarrow> (error + nat) \<times> 'u state" where
  "count_args A K s = (Inr (length A + length K), s)"

definition empty_state :: "'u \<Rightarrow> 'u state" where
  "empty_state u = \<lparr>env = \<lparr>link_hooks = [], heap = u\<rparr>, calls = []\<rparr>"

definition state_of :: "hook dict \<Rightarrow> 'u \<Rightarrow> 'u state" where
  "state_of d u = \<lparr>env = \<lparr>link_hooks = d, heap = u\<rparr>, calls = []\<rparr>"

section \<open>Facts about the dictionary\<close>

lemma getitem_setitem:
  "dict_getitem (dict_setitem d k v) k' = (if k' = k then Some v else dict_getitem d k')"
  by (induction d) (auto simp: dict_getitem_def)

lemma getitem_delitem:
  "dict_getitem (dict_delitem d k) k' = (if k' = k then None else dict_getitem d k')"
  by (induction d) (auto simp: dict_getitem_def dict_delitem_def)

lemma setitem_fresh_append:
  "dict_getitem d k = None \<Longrightarrow> dict_setitem d k v = d @ [(k, v)]"
  by (induction d) (auto simp: dict_getitem_def split: if_splits)

lemma values_setitem_fresh:
  "dict_getitem d k = None \<Longrightarrow> dict_values (dict_setitem d k v) = dict_values d @ [v]"
  by (induction d) (auto simp: dict_getitem_def dict_values_def split: if_splits)

section \<open>Facts about a phase of the hook protocol\<close>

lemma run_hooks_calls:
  "run_hooks cb ev hs s = (Inr (), s') \<Longrightarrow> calls s' = calls s @ map ev hs"
  by (induction hs arbitrary: s) (auto split: prod.splits sum.splits)

section \<open>Entering\<close>

text \<open>
  C1. When a hook is already registered under the name of \<open>h\<close>, \<^verbatim>\<open>__enter__\<close> raises the
  duplicate-name error (a \<^verbatim>\<open>KeyError\<close> whose message is \<^verbatim>\<open>hook <name> already exists\<close>)
  and the whole state is as before: the registered hook is still there, \<open>h\<close> is not
  stored, and the call log has no new entry, so \<open>added\<close> was not called.
\<close>

theorem enter_duplicate_rejected:
  assumes "dict_getitem (link_hooks (env s)) (name h) = Some g"
  shows "LinkHook_enter ct h s =
           (Inl (KeyError (''hook '' @ name h @ '' already exists'')), s)"
  using assms by (simp add: LinkHook_enter_def dict_contains_def)

theorem enter_duplicate_rejected_witness:
  "dict_getitem (link_hooks (env \<lparr>env = \<lparr>link_hooks = [(''T'', \<lparr>ident = 1, name = ''T''\<rparr>)],
                                     heap = ()\<rparr>, calls = []\<rparr>))
       (name \<lparr>ident = 2, name = ''T''\<rparr>) = Some \<lparr>ident = 1, name = ''T''\<rparr>
   \<and> LinkHook_enter (\<lambda>_. LinkHook) \<lparr>ident = 2, name = ''T''\<rparr>
       \<lparr>env = \<lparr>link_hooks = [(''T'', \<lparr>ident = 1, name = ''T''\<rparr>)], heap = ()\<rparr>, calls = []\<rparr>
     = (Inl (KeyError ''hook T already exists''),
        \<lparr>env = \<lparr>link_hooks = [(''T'', \<lparr>ident = 1, name = ''T''\<rparr>)], heap = ()\<rparr>, calls = []\<rparr>)"
proof -
  have reg: "dict_getitem (link_hooks (env \<lparr>env = \<lparr>link_hooks = [(''T'', \<lparr>ident = 1, name = ''T''\<rparr>)],
                                     heap = ()\<rparr>, calls = []\<rparr>))
       (name \<lparr>ident = 2, name = ''T''\<rparr>) = Some \<lparr>ident = 1, name = ''T''\<rparr>"
    by (simp add: dict_getitem_def)
  show ?thesis
    using reg enter_duplicate_rejected [OF reg, of "\<lambda>_. LinkHook"] by simp
qed

text \<open>
  C3, as stated: for every hook \<open>h\<close> whose name is not in the registry, \<^verbatim>\<open>__enter__\<close>
  stores \<open>h\<close>, calls \<open>h.added(None)\<close> and returns \<open>h\<close>. The return fails for a hook whose
  \<open>added\<close> raises: the name is free, and \<^verbatim>\<open>__enter__\<close> raises instead of returning \<open>h\<close>.
\<close>

theorem enter_fresh_returns_counterexample:
  "\<not> (dict_getitem (link_hooks (env (state_of [(''B'', hookB)] ()))) (name hookA) = None
       \<longrightarrow> fst (LinkHook_enter failing_hooks hookA (state_of [(''B'', hookB)] ())) = Inr hookA)"
  by (simp add: LinkHook_enter_def failing_hooks_def FailingHook_def LinkHook_def
        state_of_def hookA_def hookB_def dict_contains_def dict_getitem_def)

text \<open>
  C3, amended. When the name of \<open>h\<close> is not in the registry, \<^verbatim>\<open>__enter__\<close> stores \<open>h\<close>
  under its name (as the last entry of the registry), then calls \<open>h.added(None)\<close> once, on
  the environment in which \<open>h\<close> is already stored, and the state it leaves is the one the
  callback left. When the callback returns normally, \<^verbatim>\<open>__enter__\<close> returns \<open>h\<close> itself; when
  the callback raises, its exception propagates to the caller instead.
\<close>

theorem enter_fresh_registers:
  assumes "dict_getitem (link_hooks (env s)) (name h) = None"
  shows "\<exists>r e1.
           added (ct h) h None ((env s)\<lparr>link_hooks := link_hooks (env s) @ [(name h, h)]\<rparr>)
             = (r, e1)
         \<and> LinkHook_enter ct h s =
             ((case r of Inl e \<Rightarrow> Inl e | Inr _ \<Rightarrow> Inr h),
              \<lparr>env = e1, calls = calls s @ [Added h None]\<rparr>)"
  using assms
  by (auto simp: LinkHook_enter_def dict_contains_def setitem_fresh_append Let_def
           split: prod.splits sum.splits)

theorem enter_fresh_registers_witness:
  "dict_getitem (link_hooks (env (state_of [(''B'', hookB)] ()))) (name hookA) = None
   \<and> LinkHook_enter (\<lambda>_. LinkHook) hookA (state_of [(''B'', hookB)] ())
       = (Inr hookA, \<lparr>env = \<lparr>link_hooks = [(''B'', hookB), (''A'', hookA)], heap = ()\<rparr>,
                      calls = [Added hookA None]\<rparr>)"
proof -
  have fresh:
    "dict_getitem (link_hooks (env (state_of [(''B'', hookB)] ()))) (name hookA) = None"
    by (simp add: dict_getitem_def state_of_def hookA_def)
  show ?thesis
    using fresh enter_fresh_registers [OF fresh, of "\<lambda>_. LinkHook"]
    by (auto simp: LinkHook_def LinkHook_added_def state_of_def hookA_def)
qed

text \<open>
  C4, as stated: whenever \<^verbatim>\<open>__enter__\<close> raises, the registry has no entry under the name of
  \<open>h\<close> afterwards. It fails for a hook whose \<open>added\<close> raises: the store comes before the
  call and nothing undoes it.
\<close>

theorem enter_not_atomic_counterexample:
  "\<not> ((\<exists>e. fst (LinkHook_enter (\<lambda>_. FailingHook) hookA (empty_state ())) = Inl e)
       \<longrightarrow> dict_getitem
             (link_hooks (env (snd (LinkHook_enter (\<lambda>_. FailingHook) hookA (empty_state ())))))
             (name hookA) = None)"
  by (simp add: LinkHook_enter_def FailingHook_def LinkHook_def empty_state_def hookA_def
        dict_contains_def dict_getitem_def)

text \<open>
  C4, amended. \<^verbatim>\<open>__enter__\<close> raises in two ways only. Either the name was taken: the error
  is the duplicate-name error and the whole state is as before, so \<open>h\<close> is not stored.
  Or the name was free and \<open>h.added(None)\<close> raised: the error is the callback's, \<open>h\<close> had
  been stored before the call, and the state left is the one the callback left, with
  nothing rolled back.
\<close>

theorem enter_failure_cases:
  assumes "LinkHook_enter ct h s = (Inl e, s')"
  shows "(dict_getitem (link_hooks (env s)) (name h) \<noteq> None
            \<and> e = KeyError (''hook '' @ name h @ '' already exists'') \<and> s' = s)
         \<or> (dict_getitem (link_hooks (env s)) (name h) = None
            \<and> added (ct h) h None ((env s)\<lparr>link_hooks := link_hooks (env s) @ [(name h, h)]\<rparr>)
                = (Inl e, env s')
            \<and> calls s' = calls s @ [Added h None])"
  using assms
  by (auto simp: LinkHook_enter_def dict_contains_def setitem_fresh_append Let_def
           split: prod.splits sum.splits if_splits)

theorem enter_failure_cases_witness:
  "LinkHook_enter (\<lambda>_. FailingHook :: (nat, unit) hook_class) hookA (empty_state ())
     = (Inl (Raised ''added failed''),
        \<lparr>env = \<lparr>link_hooks = [(''A'', hookA)], heap = ()\<rparr>, calls = [Added hookA None]\<rparr>)
   \<and> dict_getitem (link_hooks (env (empty_state ()))) (name hookA) = None
   \<and> added (FailingHook :: (nat, unit) hook_class) hookA None
        ((env (empty_state ()))\<lparr>link_hooks :=
           link_hooks (env (empty_state ())) @ [(name hookA, hookA)]\<rparr>)
       = (Inl (Raised ''added failed''), \<lparr>link_hooks = [(''A'', hookA)], heap = ()\<rparr>)"
proof -
  have fails:
    "LinkHook_enter (\<lambda>_. FailingHook :: (nat, unit) hook_class) hookA (empty_state ())
       = (Inl (Raised ''added failed''),
          \<lparr>env = \<lparr>link_hooks = [(''A'', hookA)], heap = ()\<rparr>, calls = [Added hookA None]\<rparr>)"
    by (simp add: LinkHook_enter_def FailingHook_def LinkHook_def empty_state_def hookA_def
          dict_contains_def dict_getitem_def)
  show ?thesis
    using fails enter_failure_cases [OF fails]
    by (simp add: empty_state_def dict_getitem_def hookA_def)
qed

section \<open>Exiting\<close>

text \<open>
  C9. When the registry has no entry under the name of \<open>h\<close> at the moment \<^verbatim>\<open>__exit__\<close>
  runs, \<^verbatim>\<open>__exit__\<close> raises \<^verbatim>\<open>KeyError\<close> with that name and the whole state is as before:
  the registry is unchanged and the call log has no new entry, so no \<open>deleted\<close> callback
  was called.
\<close>

theorem exit_missing_raises:
  assumes "dict_getitem (link_hooks (env s)) (name h) = None"
  shows "LinkHook_exit ct h s = (Inl (KeyError (name h)), s)"
  using assms by (simp add: LinkHook_exit_def)

theorem exit_missing_raises_witness:
  "dict_getitem (link_hooks (env \<lparr>env = \<lparr>link_hooks = [(''A'', \<lparr>ident = 1, name = ''A''\<rparr>)],
                                     heap = ()\<rparr>, calls = []\<rparr>))
       (name \<lparr>ident = 2, name = ''T''\<rparr>) = None
   \<and> LinkHook_exit (\<lambda>_. LinkHook) \<lparr>ident = 2, name = ''T''\<rparr>
       \<lparr>env = \<lparr>link_hooks = [(''A'', \<lparr>ident = 1, name = ''A''\<rparr>)], heap = ()\<rparr>, calls = []\<rparr>
     = (Inl (KeyError ''T''),
        \<lparr>env = \<lparr>link_hooks = [(''A'', \<lparr>ident = 1, name = ''A''\<rparr>)], heap = ()\<rparr>, calls = []\<rparr>)"
proof -
  have reg: "dict_getitem (link_hooks (env \<lparr>env = \<lparr>link_hooks = [(''A'', \<lparr>ident = 1, name = ''A''\<rparr>)],
                                     heap = ()\<rparr>, calls = []\<rparr>))
       (name \<lparr>ident = 2, name = ''T''\<rparr>) = None"
    by (simp add: dict_getitem_def)
  show ?thesis
    using reg exit_missing_raises [OF reg, of "\<lambda>_. LinkHook"] by simp
qed

text \<open>
  C5. When a hook \<open>g\<close> is registered under the name \<open>n\<close> of \<open>self\<close>, \<^verbatim>\<open>__exit__\<close> calls
  \<open>g.deleted(None)\<close> on the environment it was given, in which \<open>n\<close> is still bound to \<open>g\<close>;
  the removal comes afterwards and is applied to the environment the callback returned.
  In the witness the callback writes down what it sees: the entry is there during the
  call and gone after it.
\<close>

theorem exit_calls_deleted_before_removal:
  assumes "dict_getitem (link_hooks (env s)) (name self) = Some g"
  shows "\<exists>r e1.
           deleted (ct g) g None (env s) = (r, e1)
         \<and> dict_getitem (link_hooks (env s)) (name self) = Some g
         \<and> calls (snd (LinkHook_exit ct self s)) = calls s @ [Deleted g None]
         \<and> env (snd (LinkHook_exit ct self s)) =
             (if r = Inr () \<and> dict_contains (link_hooks e1) (name self)
              then e1\<lparr>link_hooks := dict_delitem (link_hooks e1) (name self)\<rparr>
              else e1)"
  using assms
  by (auto simp: LinkHook_exit_def split: prod.splits sum.splits)

theorem exit_calls_deleted_before_removal_witness:
  "dict_getitem (link_hooks (env (state_of [(''A'', hookA)] False))) (name hookA) = Some hookA
   \<and> deleted (ProbeHook :: (nat, bool) hook_class) hookA None (env (state_of [(''A'', hookA)] False))
       = (Inr (), \<lparr>link_hooks = [(''A'', hookA)], heap = True\<rparr>)
   \<and> LinkHook_exit (\<lambda>_. ProbeHook :: (nat, bool) hook_class) hookA (state_of [(''A'', hookA)] False)
       = (Inr (), \<lparr>env = \<lparr>link_hooks = [], heap = True\<rparr>, calls = [Deleted hookA None]\<rparr>)"
proof -
  have reg:
    "dict_getitem (link_hooks (env (state_of [(''A'', hookA)] False))) (name hookA) = Some hookA"
    by (simp add: dict_getitem_def state_of_def hookA_def)
  show ?thesis
    using reg exit_calls_deleted_before_removal [OF reg, of "\<lambda>_. ProbeHook :: (nat, bool) hook_class"]
    by (simp add: LinkHook_exit_def ProbeHook_def LinkHook_def state_of_def hookA_def
          dict_contains_def dict_getitem_def dict_delitem_def)
qed




text \<open>
  C6. Two hooks with distinct names are both registered. \<^verbatim>\<open>__exit__\<close> of one of them
  removes nothing but its own name: every other name is bound after \<^verbatim>\<open>__exit__\<close> to what it
  was bound to when the \<open>deleted\<close> callback returned. So, for a callback that leaves the
  entry of the other hook as it was, the other hook is still registered, whichever of
  the two exits first (the statement is symmetric in the two hooks).
\<close>

theorem exit_leaves_other_hooks:
  assumes "name h1 \<noteq> name h2"
      and "dict_getitem (link_hooks (env s)) (name h1) = Some h1"
      and "dict_getitem (link_hooks (env s)) (name h2) = Some h2"
      and "dict_getitem (link_hooks (snd (deleted (ct h1) h1 None (env s)))) (name h2)
             = dict_getitem (link_hooks (env s)) (name h2)"
  shows "dict_getitem (link_hooks (env (snd (LinkHook_exit ct h1 s)))) (name h2) = Some h2
       \<and> (\<forall>k. k \<noteq> name h1 \<longrightarrow>
             dict_getitem (link_hooks (env (snd (LinkHook_exit ct h1 s)))) k
               = dict_getitem (link_hooks (snd (deleted (ct h1) h1 None (env s)))) k)"
  using assms
  by (auto simp: LinkHook_exit_def getitem_delitem split: prod.splits sum.splits)

theorem exit_leaves_other_hooks_witness:
  "name hookA \<noteq> name hookB
   \<and> LinkHook_exit (\<lambda>_. LinkHook :: (nat, unit) hook_class) hookA
       (state_of [(''A'', hookA), (''B'', hookB)] ())
       = (Inr (), \<lparr>env = \<lparr>link_hooks = [(''B'', hookB)], heap = ()\<rparr>,
                   calls = [Deleted hookA None]\<rparr>)
   \<and> LinkHook_exit (\<lambda>_. LinkHook :: (nat, unit) hook_class) hookB
       (state_of [(''A'', hookA), (''B'', hookB)] ())
       = (Inr (), \<lparr>env = \<lparr>link_hooks = [(''A'', hookA)], heap = ()\<rparr>,
                   calls = [Deleted hookB None]\<rparr>)
   \<and> dict_getitem (link_hooks (env (snd (LinkHook_exit (\<lambda>_. LinkHook :: (nat, unit) hook_class)
        hookA (state_of [(''A'', hookA), (''B'', hookB)] ()))))) (name hookB) = Some hookB
   \<and> dict_getitem (link_hooks (env (snd (LinkHook_exit (\<lambda>_. LinkHook :: (nat, unit) hook_class)
        hookB (state_of [(''A'', hookA), (''B'', hookB)] ()))))) (name hookA) = Some hookA"
proof -
  let ?s = "state_of [(''A'', hookA), (''B'', hookB)] ()"
  let ?ct = "\<lambda>_::hook. LinkHook :: (nat, unit) hook_class"
  have ab: "name hookA \<noteq> name hookB" and ba: "name hookB \<noteq> name hookA"
    by (simp_all add: hookA_def hookB_def)
  have regA: "dict_getitem (link_hooks (env ?s)) (name hookA) = Some hookA"
    and regB: "dict_getitem (link_hooks (env ?s)) (name hookB) = Some hookB"
    by (simp_all add: dict_getitem_def state_of_def hookA_def hookB_def)
  have cbA: "dict_getitem (link_hooks (snd (deleted (?ct hookA) hookA None (env ?s)))) (name hookB)
               = dict_getitem (link_hooks (env ?s)) (name hookB)"
    and cbB: "dict_getitem (link_hooks (snd (deleted (?ct hookB) hookB None (env ?s)))) (name hookA)
               = dict_getitem (link_hooks (env ?s)) (name hookA)"
    by (simp_all add: LinkHook_def LinkHook_deleted_def)
  have exA: "LinkHook_exit ?ct hookA ?s
       = (Inr (), \<lparr>env = \<lparr>link_hooks = [(''B'', hookB)], heap = ()\<rparr>,
                   calls = [Deleted hookA None]\<rparr>)"
    and exB: "LinkHook_exit ?ct hookB ?s
       = (Inr (), \<lparr>env = \<lparr>link_hooks = [(''A'', hookA)], heap = ()\<rparr>,
                   calls = [Deleted hookB None]\<rparr>)"
    by (simp_all add: LinkHook_exit_def LinkHook_def LinkHook_deleted_def state_of_def
          hookA_def hookB_def dict_contains_def dict_getitem_def dict_delitem_def)
  from exit_leaves_other_hooks [of hookA hookB ?s ?ct, OF ab regA regB cbA]
  have oneA: "dict_getitem (link_hooks (env (snd (LinkHook_exit ?ct hookA ?s)))) (name hookB)
                = Some hookB"
    by blast
  from exit_leaves_other_hooks [of hookB hookA ?s ?ct, OF ba regB regA cbB]
  have oneB: "dict_getitem (link_hooks (env (snd (LinkHook_exit ?ct hookB ?s)))) (name hookA)
                = Some hookA"
    by blast
  show ?thesis
    using ab exA exB oneA oneB by blast
qed

text \<open>
  C10. When another object \<open>g\<close> is stored under the name of \<open>self\<close>, \<^verbatim>\<open>__exit__\<close> of \<open>self\<close>
  calls \<open>g.deleted(None)\<close> and nothing else: the only new entry of the call log is that
  call, the class of \<open>self\<close> can be replaced by any other without changing the result, and
  once the callback of \<open>g\<close> has returned, the name is absent from the registry. In the
  witness every method of \<open>self\<close> would raise; \<^verbatim>\<open>__exit__\<close> returns normally.
\<close>

theorem exit_dispatches_to_stored:
  assumes "dict_getitem (link_hooks (env s)) (name self) = Some g"
      and "g \<noteq> self"
  shows "calls (snd (LinkHook_exit ct self s)) = calls s @ [Deleted g None]
       \<and> Deleted g None \<noteq> Deleted self None
       \<and> LinkHook_exit (ct(self := c)) self s = LinkHook_exit ct self s
       \<and> (fst (deleted (ct g) g None (env s)) = Inr () \<longrightarrow>
            dict_getitem (link_hooks (env (snd (LinkHook_exit ct self s)))) (name self) = None)"
  using assms
  by (auto simp: LinkHook_exit_def getitem_delitem dict_contains_def
           split: prod.splits sum.splits)

theorem exit_dispatches_to_stored_witness:
  "dict_getitem (link_hooks (env (state_of [(''A'', hookA')] False))) (name hookA) = Some hookA'
   \<and> hookA' \<noteq> hookA
   \<and> LinkHook_exit ((\<lambda>_. StubbornHook :: (nat, bool) hook_class)(hookA' := ProbeHook)) hookA
        (state_of [(''A'', hookA')] False)
       = (Inr (), \<lparr>env = \<lparr>link_hooks = [], heap = True\<rparr>, calls = [Deleted hookA' None]\<rparr>)
   \<and> LinkHook_exit ((\<lambda>_. StubbornHook :: (nat, bool) hook_class)(hookA' := ProbeHook)) hookA
        (state_of [(''A'', hookA')] False)
       = LinkHook_exit (((\<lambda>_. StubbornHook :: (nat, bool) hook_class)(hookA' := ProbeHook))
                          (hookA := LinkHook)) hookA
        (state_of [(''A'', hookA')] False)"
proof -
  let ?s = "state_of [(''A'', hookA')] False"
  let ?ct = "(\<lambda>_. StubbornHook :: (nat, bool) hook_class)(hookA' := ProbeHook)"
  have reg: "dict_getitem (link_hooks (env ?s)) (name hookA) = Some hookA'"
    by (simp add: dict_getitem_def state_of_def hookA_def hookA'_def)
  have ne: "hookA' \<noteq> hookA"
    by (simp add: hookA_def hookA'_def)
  have ex: "LinkHook_exit ?ct hookA ?s
       = (Inr (), \<lparr>env = \<lparr>link_hooks = [], heap = True\<rparr>, calls = [Deleted hookA' None]\<rparr>)"
    by (simp add: LinkHook_exit_def ProbeHook_def LinkHook_def state_of_def hookA_def hookA'_def
          dict_contains_def dict_getitem_def dict_delitem_def)
  from exit_dispatches_to_stored [of ?s hookA hookA' ?ct LinkHook, OF reg ne]
  have "LinkHook_exit (?ct(hookA := LinkHook)) hookA ?s = LinkHook_exit ?ct hookA ?s"
    by blast
  then show ?thesis
    using reg ne ex by simp
qed

section \<open>The base class\<close>

text \<open>
  C8. The four callbacks of the base class do nothing, on every input: each returns
  \<^verbatim>\<open>None\<close> and the environment (registry and heap) it was given. The hook and the argument
  are values and cannot be changed by a call.
\<close>

theorem base_class_callbacks_do_nothing:
  "LinkHook_added self lnk e = (Inr (), e)
   \<and> LinkHook_deleted self lnk e = (Inr (), e)
   \<and> LinkHook_forward_preprocess self cb_args e = (Inr (), e)
   \<and> LinkHook_forward_postprocess self cb_args e = (Inr (), e)
   \<and> added LinkHook self lnk e = (Inr (), e)
   \<and> deleted LinkHook self lnk e = (Inr (), e)
   \<and> forward_preprocess LinkHook self cb_args e = (Inr (), e)
   \<and> forward_postprocess LinkHook self cb_args e = (Inr (), e)"
  by (simp add: LinkHook_def LinkHook_added_def LinkHook_deleted_def
        LinkHook_forward_preprocess_def LinkHook_forward_postprocess_def)

section \<open>Dispatch order\<close>

text \<open>
  C7, as stated: in every invocation of the node the post-invoke callbacks are called
  in the sequence \<open>Ga, Gb, La, Lb\<close>. It fails for an invocation whose wrapped computation
  raises: the four pre-invoke callbacks have been called, the exception propagates and
  no post-invoke callback is called.
\<close>

theorem dispatch_order_counterexample:
  "invoke_with_hooks recording_hooks linkN ''forward'' [10, 20] [] failing_computation
      (state_of (dict_setitem (dict_setitem [] (name hookA) hookA) (name hookB) hookB) [])
     = (Inl (Raised ''forward failed''),
        \<lparr>env = \<lparr>link_hooks = [(''A'', hookA), (''B'', hookB)],
                heap = [(''pre'', ''A'', None), (''pre'', ''B'', None),
                        (''pre'', ''C'', None), (''pre'', ''D'', None)]\<rparr>,
         calls = [ForwardPreprocess hookA, ForwardPreprocess hookB,
                  ForwardPreprocess hookC, ForwardPreprocess hookD]\<rparr>)
   \<and> ForwardPostprocess hookA \<notin>
       set (calls (snd (invoke_with_hooks recording_hooks linkN ''forward'' [10, 20] []
         failing_computation
         (state_of (dict_setitem (dict_setitem [] (name hookA) hookA) (name hookB) hookB) []))))"
  by (simp add: invoke_with_hooks_def linkN_def state_of_def dict_values_def
        recording_hooks_def RecordingHook_def failing_computation_def
        hookA_def hookB_def hookC_def hookD_def)

text \<open>
  C7, amended. The global registry holds \<open>Ga\<close> and \<open>Gb\<close>, stored in that order, and the
  local registry of the node holds \<open>La\<close> and \<open>Lb\<close>, stored in that order. In every
  invocation of the node the pre-invoke callbacks are called in the order
  \<open>Ga, Gb, La, Lb\<close>, each on the environment the one before left and with callback data
  that has no \<open>out\<close>; then the wrapped computation runs; then the post-invoke callbacks
  are called in the same order, with callback data whose \<open>out\<close> is the result. The first
  callback that raises, or the computation if it raises, ends the invocation with that
  exception, and nothing that comes later in this order is called. So both sequences are
  complete exactly in an invocation in which nothing raises, and that is the only
  invocation that returns the result.
\<close>

theorem dispatch_order:
  assumes "name Ga \<noteq> name Gb" and "name La \<noteq> name Lb"
      and "link_hooks (env s) = dict_setitem (dict_setitem [] (name Ga) Ga) (name Gb) Gb"
      and "local_link_hooks N = dict_setitem (dict_setitem [] (name La) La) (name Lb) Lb"
  shows "invoke_with_hooks ct N M A K computation s =
      (case forward_preprocess (ct Ga) Ga
              \<lparr>link = link_id N, forward_method = M, args = A, kwargs = K, out = None\<rparr> (env s) of
         (Inl x, e1) \<Rightarrow>
           (Inl x, \<lparr>env = e1, calls = calls s @ [ForwardPreprocess Ga]\<rparr>)
       | (Inr _, e1) \<Rightarrow>
      (case forward_preprocess (ct Gb) Gb
              \<lparr>link = link_id N, forward_method = M, args = A, kwargs = K, out = None\<rparr> e1 of
         (Inl x, e2) \<Rightarrow>
           (Inl x, \<lparr>env = e2, calls = calls s @ [ForwardPreprocess Ga, ForwardPreprocess Gb]\<rparr>)
       | (Inr _, e2) \<Rightarrow>
      (case forward_preprocess (ct La) La
              \<lparr>link = link_id N, forward_method = M, args = A, kwargs = K, out = None\<rparr> e2 of
         (Inl x, e3) \<Rightarrow>
           (Inl x, \<lparr>env = e3, calls = calls s @ [ForwardPreprocess Ga, ForwardPreprocess Gb, ForwardPreprocess La]\<rparr>)
       | (Inr _, e3) \<Rightarrow>
      (case forward_preprocess (ct Lb) Lb
              \<lparr>link = link_id N, forward_method = M, args = A, kwargs = K, out = None\<rparr> e3 of
         (Inl x, e4) \<Rightarrow>
           (Inl x, \<lparr>env = e4, calls = calls s @ [ForwardPreprocess Ga, ForwardPreprocess Gb, ForwardPreprocess La, ForwardPreprocess Lb]\<rparr>)
       | (Inr _, e4) \<Rightarrow>
      (case computation A K
              \<lparr>env = e4, calls = calls s @ [ForwardPreprocess Ga, ForwardPreprocess Gb, ForwardPreprocess La, ForwardPreprocess Lb]\<rparr> of
         (Inl x, s2) \<Rightarrow> (Inl x, s2)
       | (Inr R, s2) \<Rightarrow>
      (case forward_postprocess (ct Ga) Ga
              \<lparr>link = link_id N, forward_method = M, args = A, kwargs = K, out = Some R\<rparr> (env s2) of
         (Inl x, f1) \<Rightarrow>
           (Inl x, \<lparr>env = f1, calls = calls s2 @ [ForwardPostprocess Ga]\<rparr>)
       | (Inr _, f1) \<Rightarrow>
      (case forward_postprocess (ct Gb) Gb
              \<lparr>link = link_id N, forward_method = M, args = A, kwargs = K, out = Some R\<rparr> f1 of
         (Inl x, f2) \<Rightarrow>
           (Inl x, \<lparr>env = f2, calls = calls s2 @ [ForwardPostprocess Ga, ForwardPostprocess Gb]\<rparr>)
       | (Inr _, f2) \<Rightarrow>
      (case forward_postprocess (ct La) La
              \<lparr>link = link_id N, forward_method = M, args = A, kwargs = K, out = Some R\<rparr> f2 of
         (Inl x, f3) \<Rightarrow>
           (Inl x, \<lparr>env = f3, calls = calls s2 @ [ForwardPostprocess Ga, ForwardPostprocess Gb, ForwardPostprocess La]\<rparr>)
       | (Inr _, f3) \<Rightarrow>
      (case forward_postprocess (ct Lb) Lb
              \<lparr>link = link_id N, forward_method = M, args = A, kwargs = K, out = Some R\<rparr> f3 of
         (Inl x, f4) \<Rightarrow>
           (Inl x, \<lparr>env = f4, calls = calls s2 @ [ForwardPostprocess Ga, ForwardPostprocess Gb, ForwardPostprocess La, ForwardPostprocess Lb]\<rparr>)
       | (Inr _, f4) \<Rightarrow>
           (Inr R, \<lparr>env = f4, calls = calls s2 @ [ForwardPostprocess Ga, ForwardPostprocess Gb, ForwardPostprocess La, ForwardPostprocess Lb]\<rparr>))))))))))"
proof -
  have hooks: "dict_values (link_hooks (env s)) @ dict_values (local_link_hooks N)
                 = [Ga, Gb, La, Lb]"
    using assms by (simp add: dict_values_def)
  show ?thesis
    unfolding invoke_with_hooks_def Let_def hooks
    by (simp split: prod.splits sum.splits)
qed

theorem dispatch_order_witness:
  "name hookA \<noteq> name hookB \<and> name hookC \<noteq> name hookD
   \<and> invoke_with_hooks recording_hooks linkN ''forward'' [10, 20] [] count_args
      (state_of (dict_setitem (dict_setitem [] (name hookA) hookA) (name hookB) hookB) [])
     = (Inr 2,
        \<lparr>env = \<lparr>link_hooks = [(''A'', hookA), (''B'', hookB)],
                heap = [(''pre'', ''A'', None), (''pre'', ''B'', None),
                        (''pre'', ''C'', None), (''pre'', ''D'', None),
                        (''post'', ''A'', Some 2), (''post'', ''B'', Some 2),
                        (''post'', ''C'', Some 2), (''post'', ''D'', Some 2)]\<rparr>,
         calls = [ForwardPreprocess hookA, ForwardPreprocess hookB,
                  ForwardPreprocess hookC, ForwardPreprocess hookD,
                  ForwardPostprocess hookA, ForwardPostprocess hookB,
                  ForwardPostprocess hookC, ForwardPostprocess hookD]\<rparr>)"
proof -
  let ?s = "state_of (dict_setitem (dict_setitem [] (name hookA) hookA) (name hookB) hookB)
              ([] :: (string \<times> string \<times> nat option) list)"
  have ab: "name hookA \<noteq> name hookB" and cd: "name hookC \<noteq> name hookD"
    by (simp_all add: hookA_def hookB_def hookC_def hookD_def)
  have glob: "link_hooks (env ?s)
                = dict_setitem (dict_setitem [] (name hookA) hookA) (name hookB) hookB"
    by (simp add: state_of_def)
  have loc: "local_link_hooks linkN
               = dict_setitem (dict_setitem [] (name hookC) hookC) (name hookD) hookD"
    by (simp add: linkN_def)
  note run = dispatch_order [where ct = recording_hooks and M = "''forward''"
               and A = "[10, 20]" and K = "[]" and computation = count_args,
               OF ab cd glob loc]
  have "invoke_with_hooks recording_hooks linkN ''forward'' [10, 20] [] count_args ?s
     = (Inr 2,
        \<lparr>env = \<lparr>link_hooks = [(''A'', hookA), (''B'', hookB)],
                heap = [(''pre'', ''A'', None), (''pre'', ''B'', None),
                        (''pre'', ''C'', None), (''pre'', ''D'', None),
                        (''post'', ''A'', Some 2), (''post'', ''B'', Some 2),
                        (''post'', ''C'', Some 2), (''post'', ''D'', Some 2)]\<rparr>,
         calls = [ForwardPreprocess hookA, ForwardPreprocess hookB,
                  ForwardPreprocess hookC, ForwardPreprocess hookD,
                  ForwardPostprocess hookA, ForwardPostprocess hookB,
                  ForwardPostprocess hookC, ForwardPostprocess hookD]\<rparr>)"
    by (subst run)
       (simp add: linkN_def state_of_def recording_hooks_def RecordingHook_def
          count_args_def hookA_def hookB_def hookC_def hookD_def)
  with ab cd show ?thesis
    by simp
qed

end
